theory Spec2Isabelle
  imports Complex_Main "HOL-Library.Multiset"
begin

section \<open>Data model\<close>

text \<open>
  The backend keeps its data in a document store (MongoDB) and exposes it through route
  handlers. The theory embeds the handlers that order sections and items by position,
  guard archived courses, gate course edits, enrol users in bulk and grade quiz attempts.

  Modelling decisions, used throughout:
  \<^item> a collection is a list of records in insertion order; \<open>find_one\<close> returns the first
    match, \<open>update_one\<close> and \<open>delete_one\<close> touch the first match, \<open>update_many\<close> and
    \<open>delete_many\<close> touch every match. Index constraints of the store are not modelled;
  \<^item> every handler returns its outcome together with the store after the call, so that a
    write made before a raise would show in the result;
  \<^item> a raised exception is a value of type \<open>error\<close>;
  \<^item> \<open>datetime.now()\<close> and \<open>uuid.uuid4()\<close> are inputs of the handler (\<open>now\<close>, \<open>new_id\<close>);
  \<^item> \<open>current_user\<close> is the value that the route's \<open>Depends(require_roles(...))\<close> hands to
    the handler body; \<open>utils/auth.py\<close> is not among the sources, the handler bodies are;
  \<^item> fields that no modelled handler reads (descriptions, tags, settings, payloads) are
    left out of the records; non-ASCII letters of message texts are written in ASCII.
\<close>

datatype CourseStatus = DRAFT | PUBLISHED | SUSPENDED | ARCHIVED

datatype UserRole = ADMIN | TEACHER | EDITOR | STUDENT

datatype EnrollmentRole = ENROLLED_TEACHER | ENROLLED_EDITOR | ENROLLED_STUDENT

datatype EnrollmentStatus = ACTIVE | ENROLLMENT_SUSPENDED | ENDED

datatype ItemType = PAGE | FILE | VIDEO | URL | FORUM | ASSIGNMENT | QUIZ | FEEDBACK | LABEL

datatype error =
    HTTPException nat string
  | TypeError string
  | AttributeError string

record CurrentUser =
  cu_user_id :: string
  cu_role :: UserRole

record Course =
  c_id :: string
  c_fullname :: string
  c_shortname :: string
  c_category_id :: string
  c_status :: CourseStatus
  c_visible :: bool
  c_created_by :: "string option"
  c_updated_at :: string
  c_last_modified_by :: "string option"

record CourseSection =
  s_id :: string
  s_course_id :: string
  s_title :: string
  s_position :: int
  s_visible :: bool
  s_created_at :: string
  s_updated_at :: string

record CourseItem =
  i_id :: string
  i_section_id :: string
  i_course_id :: string
  i_title :: string
  i_item_type :: ItemType
  i_position :: int
  i_visible :: bool
  i_created_at :: string
  i_updated_at :: string

record Enrollment =
  e_id :: string
  e_course_id :: string
  e_user_id :: string
  e_role :: EnrollmentRole
  e_status :: EnrollmentStatus
  e_enrolled_by :: "string option"

record User =
  u_id :: string
  u_email :: string
  u_role :: UserRole

record Category =
  cat_id :: string
  cat_course_count :: int

record AuditEntry =
  a_action :: string
  a_entity_type :: string
  a_entity_id :: string
  a_user_id :: string

text \<open>Request bodies. In an update body \<open>None\<close> is a field that the request leaves unset.\<close>

record CourseSectionCreate =
  sc_title :: string
  sc_position :: int
  sc_course_id :: string

record CourseSectionUpdate =
  su_title :: "string option"
  su_position :: "int option"
  su_visible :: "bool option"

record CourseItemCreate =
  ic_title :: string
  ic_item_type :: ItemType
  ic_position :: int
  ic_section_id :: "string option"

record CourseItemUpdate =
  iu_title :: "string option"
  iu_position :: "int option"
  iu_visible :: "bool option"

record CourseUpdate =
  upd_fullname :: "string option"
  upd_shortname :: "string option"
  upd_category_id :: "string option"
  upd_visible :: "bool option"
  upd_status :: "CourseStatus option"

text \<open>The body of \<open>create_course\<close>, with the fields that the handler reads.\<close>

datatype CourseFormat = TOPICS | WEEKS | FREE


record DB =
  courses :: "Course list"
  course_sections :: "CourseSection list"
  course_items :: "CourseItem list"
  enrollments :: "Enrollment list"
  users :: "User list"
  course_categories :: "Category list"
  audit_logs :: "AuditEntry list"

datatype Message =
    Sin_cambios
  | Seccion_movida int int
  | Item_movido string int
  | Seccion_eliminada
  | Item_eliminado
  | Item_visibilidad bool
  | Cursos_eliminados nat
  | Accion_aplicada string nat

section \<open>The document store\<close>

definition find_one :: "('a \<Rightarrow> bool) \<Rightarrow> 'a list \<Rightarrow> 'a option" where
  "find_one P xs = List.find P xs"

text \<open>\<open>find_one(filter, sort=[(key, -1)])\<close>: the first document with the largest key.\<close>

definition find_one_sort_desc :: "('a \<Rightarrow> int) \<Rightarrow> ('a \<Rightarrow> bool) \<Rightarrow> 'a list \<Rightarrow> 'a option" where
  "find_one_sort_desc key P xs =
     (case filter P xs of
        [] \<Rightarrow> None
      | y # ys \<Rightarrow> Some (fold (\<lambda>d best. if key best < key d then d else best) ys y))"

fun update_one :: "('a \<Rightarrow> bool) \<Rightarrow> ('a \<Rightarrow> 'a) \<Rightarrow> 'a list \<Rightarrow> 'a list" where
  "update_one P f [] = []"
| "update_one P f (x # xs) = (if P x then f x # xs else x # update_one P f xs)"

definition update_many :: "('a \<Rightarrow> bool) \<Rightarrow> ('a \<Rightarrow> 'a) \<Rightarrow> 'a list \<Rightarrow> 'a list" where
  "update_many P f xs = map (\<lambda>x. if P x then f x else x) xs"

fun delete_one :: "('a \<Rightarrow> bool) \<Rightarrow> 'a list \<Rightarrow> 'a list" where
  "delete_one P [] = []"
| "delete_one P (x # xs) = (if P x then xs else x # delete_one P xs)"

definition delete_many :: "('a \<Rightarrow> bool) \<Rightarrow> 'a list \<Rightarrow> 'a list" where
  "delete_many P xs = filter (\<lambda>x. \<not> P x) xs"

definition insert_one :: "'a \<Rightarrow> 'a list \<Rightarrow> 'a list" where
  "insert_one x xs = xs @ [x]"

definition count_documents :: "('a \<Rightarrow> bool) \<Rightarrow> 'a list \<Rightarrow> nat" where
  "count_documents P xs = length (filter P xs)"



text \<open>\<open>utils/audit.py\<close>: one entry appended per call (its uuid, details and timestamp left out).\<close>

definition log_audit :: "DB \<Rightarrow> string \<Rightarrow> string \<Rightarrow> string \<Rightarrow> string \<Rightarrow> DB" where
  "log_audit db action entity_type entity_id user_id =
     db\<lparr>audit_logs := insert_one
          \<lparr>a_action = action, a_entity_type = entity_type, a_entity_id = entity_id,
           a_user_id = user_id\<rparr> (audit_logs db)\<rparr>"

text \<open>
  A call \<open>f(**d, k=v)\<close> raises \<open>TypeError: got multiple values for keyword argument\<close> when
  \<open>k\<close> is also a key of \<open>d\<close>. \<open>model_dump()\<close> of a request body has every field of the body as
  a key.
\<close>

definition duplicate_keyword :: "string list \<Rightarrow> string list \<Rightarrow> bool" where
  "duplicate_keyword unpacked explicit = (filter (\<lambda>k. k \<in> set unpacked) explicit \<noteq> [])"

definition CourseSectionCreate_model_dump_keys :: "string list" where
  "CourseSectionCreate_model_dump_keys = [''title'', ''summary'', ''position'', ''course_id'']"

definition CourseItemCreate_model_dump_keys :: "string list" where
  "CourseItemCreate_model_dump_keys =
     [''title'', ''item_type'', ''description'', ''position'', ''content'', ''section_id'']"

section \<open>routes/sections.py\<close>

definition archived_error :: error where
  "archived_error = HTTPException 400 ''Los cursos archivados no se pueden editar''"

definition check_course_access :: "DB \<Rightarrow> string \<Rightarrow> CurrentUser \<Rightarrow> bool \<Rightarrow> error + Course" where
  "check_course_access db course_id current_user edit =
     (case find_one (\<lambda>c. c_id c = course_id) (courses db) of
        None \<Rightarrow> Inl (HTTPException 404 ''Curso no encontrado'')
      | Some course \<Rightarrow>
          if edit \<and> c_status course = ARCHIVED then Inl archived_error
          else if cu_role current_user = STUDENT then
            (case find_one (\<lambda>e. e_course_id e = course_id \<and>
                               e_user_id e = cu_user_id current_user \<and>
                               e_status e = ACTIVE) (enrollments db) of
               Some enrollment \<Rightarrow> Inr course
             | None \<Rightarrow>
                 if c_status course = PUBLISHED
                 then (if c_visible course then Inr course
                       else Inl (HTTPException 403 ''No tienes acceso a este curso''))
                 else Inl (HTTPException 403 ''No tienes acceso a este curso''))
          else Inr course)"

definition touch_course :: "string \<Rightarrow> string \<Rightarrow> Course list \<Rightarrow> Course list" where
  "touch_course course_id now cs =
     update_one (\<lambda>c. c_id c = course_id) (\<lambda>c. c\<lparr>c_updated_at := now\<rparr>) cs"

definition create_section ::
  "DB \<Rightarrow> string \<Rightarrow> CourseSectionCreate \<Rightarrow> CurrentUser \<Rightarrow> string \<Rightarrow> string
     \<Rightarrow> (error + CourseSection) \<times> DB" where
  "create_section db course_id section_data current_user new_id now =
     (case check_course_access db course_id current_user True of
        Inl e \<Rightarrow> (Inl e, db)
      | Inr course \<Rightarrow>
          let max_section = find_one_sort_desc s_position (\<lambda>s. s_course_id s = course_id)
                              (course_sections db);
              next_position = (case max_section of Some m \<Rightarrow> s_position m + 1 | None \<Rightarrow> 0)
          in
          if duplicate_keyword CourseSectionCreate_model_dump_keys [''course_id'', ''position'']
          then (Inl (TypeError ''got multiple values for keyword argument''), db)
          else
            let sec = \<lparr>s_id = new_id, s_course_id = course_id, s_title = sc_title section_data,
                       s_position = (if sc_position section_data \<noteq> 0
                                     then sc_position section_data else next_position),
                       s_visible = True, s_created_at = now, s_updated_at = now\<rparr>;
                db1 = db\<lparr>course_sections := insert_one sec (course_sections db)\<rparr>;
                db2 = db1\<lparr>courses := touch_course course_id now (courses db1)\<rparr>;
                db3 = log_audit db2 ''create'' ''section'' new_id (cu_user_id current_user)
            in (Inr sec, db3))"

definition apply_section_update :: "CourseSectionUpdate \<Rightarrow> string \<Rightarrow> CourseSection \<Rightarrow> CourseSection" where
  "apply_section_update u now s =
     s\<lparr>s_title := (case su_title u of Some t \<Rightarrow> t | None \<Rightarrow> s_title s),
       s_position := (case su_position u of Some p \<Rightarrow> p | None \<Rightarrow> s_position s),
       s_visible := (case su_visible u of Some v \<Rightarrow> v | None \<Rightarrow> s_visible s),
       s_updated_at := now\<rparr>"

definition update_section ::
  "DB \<Rightarrow> string \<Rightarrow> string \<Rightarrow> CourseSectionUpdate \<Rightarrow> CurrentUser \<Rightarrow> string
     \<Rightarrow> (error + CourseSection option) \<times> DB" where
  "update_section db course_id section_id section_update current_user now =
     (case check_course_access db course_id current_user True of
        Inl e \<Rightarrow> (Inl e, db)
      | Inr course \<Rightarrow>
          (case find_one (\<lambda>s. s_id s = section_id \<and> s_course_id s = course_id)
                  (course_sections db) of
             None \<Rightarrow> (Inl (HTTPException 404 ''Seccion no encontrada''), db)
           | Some sec \<Rightarrow>
               let db1 = db\<lparr>course_sections :=
                             update_one (\<lambda>s. s_id s = section_id)
                               (apply_section_update section_update now) (course_sections db)\<rparr>;
                   db2 = db1\<lparr>courses := touch_course course_id now (courses db1)\<rparr>;
                   db3 = log_audit db2 ''update'' ''section'' section_id (cu_user_id current_user)
               in (Inr (find_one (\<lambda>s. s_id s = section_id) (course_sections db3)), db3)))"

definition delete_section ::
  "DB \<Rightarrow> string \<Rightarrow> string \<Rightarrow> bool \<Rightarrow> CurrentUser \<Rightarrow> string \<Rightarrow> (error + Message) \<times> DB" where
  "delete_section db course_id section_id force current_user now =
     (case check_course_access db course_id current_user True of
        Inl e \<Rightarrow> (Inl e, db)
      | Inr course \<Rightarrow>
          (case find_one (\<lambda>s. s_id s = section_id \<and> s_course_id s = course_id)
                  (course_sections db) of
             None \<Rightarrow> (Inl (HTTPException 404 ''Seccion no encontrada''), db)
           | Some sec \<Rightarrow>
               let item_count = count_documents (\<lambda>i. i_section_id i = section_id) (course_items db)
               in
               if item_count > 0 \<and> \<not> force
               then (Inl (HTTPException 400 ''La seccion tiene elementos. Usa force=true para confirmar.''), db)
               else
                 let db0 = (if item_count > 0
                            then db\<lparr>course_items :=
                                      delete_many (\<lambda>i. i_section_id i = section_id) (course_items db)\<rparr>
                            else db);
                     db1 = db0\<lparr>course_sections :=
                                 delete_one (\<lambda>s. s_id s = section_id) (course_sections db0)\<rparr>;
                     db2 = db1\<lparr>courses := touch_course course_id now (courses db1)\<rparr>;
                     db3 = log_audit db2 ''delete'' ''section'' section_id (cu_user_id current_user)
                 in (Inr Seccion_eliminada, db3)))"

definition move_section ::
  "DB \<Rightarrow> string \<Rightarrow> string \<Rightarrow> int \<Rightarrow> CurrentUser \<Rightarrow> string \<Rightarrow> (error + Message) \<times> DB" where
  "move_section db course_id section_id new_position current_user now =
     (case check_course_access db course_id current_user True of
        Inl e \<Rightarrow> (Inl e, db)
      | Inr course \<Rightarrow>
          (case find_one (\<lambda>s. s_id s = section_id \<and> s_course_id s = course_id)
                  (course_sections db) of
             None \<Rightarrow> (Inl (HTTPException 404 ''Seccion no encontrada''), db)
           | Some sec \<Rightarrow>
               let old_position = s_position sec in
               if new_position = old_position then (Inr Sin_cambios, db)
               else
                 let secs1 =
                       (if new_position > old_position
                        then update_many
                               (\<lambda>s. s_course_id s = course_id \<and>
                                    old_position < s_position s \<and> s_position s \<le> new_position)
                               (\<lambda>s. s\<lparr>s_position := s_position s - 1\<rparr>) (course_sections db)
                        else update_many
                               (\<lambda>s. s_course_id s = course_id \<and>
                                    new_position \<le> s_position s \<and> s_position s < old_position)
                               (\<lambda>s. s\<lparr>s_position := s_position s + 1\<rparr>) (course_sections db));
                     secs2 = update_one (\<lambda>s. s_id s = section_id)
                               (\<lambda>s. s\<lparr>s_position := new_position, s_updated_at := now\<rparr>) secs1;
                     db1 = db\<lparr>course_sections := secs2\<rparr>;
                     db2 = db1\<lparr>courses := touch_course course_id now (courses db1)\<rparr>
                 in (Inr (Seccion_movida old_position new_position), db2)))"

section \<open>routes/items.py\<close>

definition check_section_access ::
  "DB \<Rightarrow> string \<Rightarrow> CurrentUser \<Rightarrow> bool \<Rightarrow> error + CourseSection \<times> Course" where
  "check_section_access db section_id current_user edit =
     (case find_one (\<lambda>s. s_id s = section_id) (course_sections db) of
        None \<Rightarrow> Inl (HTTPException 404 ''Seccion no encontrada'')
      | Some sec \<Rightarrow>
          (case find_one (\<lambda>c. c_id c = s_course_id sec) (courses db) of
             None \<Rightarrow> Inl (HTTPException 404 ''Curso no encontrado'')
           | Some course \<Rightarrow>
               if edit \<and> c_status course = ARCHIVED then Inl archived_error
               else Inr (sec, course)))"

definition create_item ::
  "DB \<Rightarrow> string \<Rightarrow> CourseItemCreate \<Rightarrow> CurrentUser \<Rightarrow> string \<Rightarrow> string
     \<Rightarrow> (error + CourseItem) \<times> DB" where
  "create_item db section_id item_data current_user new_id now =
     (case check_section_access db section_id current_user True of
        Inl e \<Rightarrow> (Inl e, db)
      | Inr (sec, course) \<Rightarrow>
          let max_item = find_one_sort_desc i_position (\<lambda>i. i_section_id i = section_id)
                           (course_items db);
              next_position = (case max_item of Some m \<Rightarrow> i_position m + 1 | None \<Rightarrow> 0)
          in
          if duplicate_keyword CourseItemCreate_model_dump_keys
               [''section_id'', ''course_id'', ''position'']
          then (Inl (TypeError ''got multiple values for keyword argument''), db)
          else
            let item = \<lparr>i_id = new_id, i_section_id = section_id, i_course_id = c_id course,
                        i_title = ic_title item_data, i_item_type = ic_item_type item_data,
                        i_position = (if ic_position item_data \<noteq> 0
                                      then ic_position item_data else next_position),
                        i_visible = True, i_created_at = now, i_updated_at = now\<rparr>;
                db1 = db\<lparr>course_items := insert_one item (course_items db)\<rparr>;
                db2 = db1\<lparr>courses := touch_course (c_id course) now (courses db1)\<rparr>;
                db3 = log_audit db2 ''create'' ''item'' new_id (cu_user_id current_user)
            in (Inr item, db3))"

definition apply_item_update :: "CourseItemUpdate \<Rightarrow> string \<Rightarrow> CourseItem \<Rightarrow> CourseItem" where
  "apply_item_update u now i =
     i\<lparr>i_title := (case iu_title u of Some t \<Rightarrow> t | None \<Rightarrow> i_title i),
       i_position := (case iu_position u of Some p \<Rightarrow> p | None \<Rightarrow> i_position i),
       i_visible := (case iu_visible u of Some v \<Rightarrow> v | None \<Rightarrow> i_visible i),
       i_updated_at := now\<rparr>"

definition course_is_archived :: "Course option \<Rightarrow> bool" where
  "course_is_archived course = (case course of None \<Rightarrow> False | Some c \<Rightarrow> c_status c = ARCHIVED)"

definition touch_course_if_found :: "Course option \<Rightarrow> string \<Rightarrow> DB \<Rightarrow> DB" where
  "touch_course_if_found course now db =
     (case course of
        None \<Rightarrow> db
      | Some c \<Rightarrow> db\<lparr>courses := touch_course (c_id c) now (courses db)\<rparr>)"

definition update_item ::
  "DB \<Rightarrow> string \<Rightarrow> CourseItemUpdate \<Rightarrow> CurrentUser \<Rightarrow> string
     \<Rightarrow> (error + CourseItem option) \<times> DB" where
  "update_item db item_id item_update current_user now =
     (case find_one (\<lambda>i. i_id i = item_id) (course_items db) of
        None \<Rightarrow> (Inl (HTTPException 404 ''Item no encontrado''), db)
      | Some item \<Rightarrow>
          let course = find_one (\<lambda>c. c_id c = i_course_id item) (courses db) in
          if course_is_archived course then (Inl archived_error, db)
          else
            let db1 = db\<lparr>course_items :=
                          update_one (\<lambda>i. i_id i = item_id)
                            (apply_item_update item_update now) (course_items db)\<rparr>;
                db2 = touch_course_if_found course now db1;
                db3 = log_audit db2 ''update'' ''item'' item_id (cu_user_id current_user)
            in (Inr (find_one (\<lambda>i. i_id i = item_id) (course_items db3)), db3))"

definition delete_item ::
  "DB \<Rightarrow> string \<Rightarrow> CurrentUser \<Rightarrow> string \<Rightarrow> (error + Message) \<times> DB" where
  "delete_item db item_id current_user now =
     (case find_one (\<lambda>i. i_id i = item_id) (course_items db) of
        None \<Rightarrow> (Inl (HTTPException 404 ''Item no encontrado''), db)
      | Some item \<Rightarrow>
          let course = find_one (\<lambda>c. c_id c = i_course_id item) (courses db) in
          if course_is_archived course then (Inl archived_error, db)
          else
            let db1 = db\<lparr>course_items := delete_one (\<lambda>i. i_id i = item_id) (course_items db)\<rparr>;
                db2 = touch_course_if_found course now db1;
                db3 = log_audit db2 ''delete'' ''item'' item_id (cu_user_id current_user)
            in (Inr Item_eliminado, db3))"

definition duplicate_item ::
  "DB \<Rightarrow> string \<Rightarrow> string option \<Rightarrow> CurrentUser \<Rightarrow> string \<Rightarrow> string
     \<Rightarrow> (error + CourseItem) \<times> DB" where
  "duplicate_item db item_id target_section_id current_user new_id now =
     (case find_one (\<lambda>i. i_id i = item_id) (course_items db) of
        None \<Rightarrow> (Inl (HTTPException 404 ''Item no encontrado''), db)
      | Some item \<Rightarrow>
          let section_id = (case target_section_id of
                              None \<Rightarrow> i_section_id item
                            | Some t \<Rightarrow> if t = [] then i_section_id item else t)
          in
          (case find_one (\<lambda>s. s_id s = section_id) (course_sections db) of
             None \<Rightarrow> (Inl (HTTPException 404 ''Seccion destino no encontrada''), db)
           | Some sec \<Rightarrow>
               let max_item = find_one_sort_desc i_position (\<lambda>i. i_section_id i = section_id)
                                (course_items db);
                   next_position = (case max_item of Some m \<Rightarrow> i_position m + 1 | None \<Rightarrow> 0);
                   new_item = item\<lparr>i_id := new_id, i_section_id := section_id,
                                   i_course_id := s_course_id sec,
                                   i_title := i_title item @ '' (Copia)'',
                                   i_position := next_position,
                                   i_created_at := now, i_updated_at := now\<rparr>;
                   db1 = db\<lparr>course_items := insert_one new_item (course_items db)\<rparr>;
                   db2 = log_audit db1 ''duplicate'' ''item'' new_id (cu_user_id current_user)
               in (Inr new_item, db2)))"

definition set_item_location ::
  "string \<Rightarrow> string \<Rightarrow> string \<Rightarrow> int \<Rightarrow> string \<Rightarrow> CourseItem list \<Rightarrow> CourseItem list" where
  "set_item_location item_id target_section_id target_course_id new_position now items =
     update_one (\<lambda>i. i_id i = item_id)
       (\<lambda>i. i\<lparr>i_section_id := target_section_id,
              i_course_id := target_course_id,
              i_position := new_position, i_updated_at := now\<rparr>) items"

definition move_item ::
  "DB \<Rightarrow> string \<Rightarrow> string \<Rightarrow> int \<Rightarrow> CurrentUser \<Rightarrow> string \<Rightarrow> (error + Message) \<times> DB" where
  "move_item db item_id target_section_id new_position current_user now =
     (case find_one (\<lambda>i. i_id i = item_id) (course_items db) of
        None \<Rightarrow> (Inl (HTTPException 404 ''Item no encontrado''), db)
      | Some item \<Rightarrow>
          (case find_one (\<lambda>s. s_id s = target_section_id) (course_sections db) of
             None \<Rightarrow> (Inl (HTTPException 404 ''Seccion destino no encontrada''), db)
           | Some target_section \<Rightarrow>
               let old_section_id = i_section_id item;
                   old_position = i_position item
               in
               if target_section_id = old_section_id then
                 (if new_position = old_position then (Inr Sin_cambios, db)
                  else
                    let items1 =
                          (if new_position > old_position
                           then update_many
                                  (\<lambda>i. i_section_id i = old_section_id \<and>
                                       old_position < i_position i \<and> i_position i \<le> new_position)
                                  (\<lambda>i. i\<lparr>i_position := i_position i - 1\<rparr>) (course_items db)
                           else update_many
                                  (\<lambda>i. i_section_id i = old_section_id \<and>
                                       new_position \<le> i_position i \<and> i_position i < old_position)
                                  (\<lambda>i. i\<lparr>i_position := i_position i + 1\<rparr>) (course_items db))
                    in (Inr (Item_movido target_section_id new_position),
                        db\<lparr>course_items :=
                             set_item_location item_id target_section_id (s_course_id target_section)
                               new_position now items1\<rparr>))
               else
                 let items1 =
                       update_many
                         (\<lambda>i. i_section_id i = old_section_id \<and> old_position < i_position i)
                         (\<lambda>i. i\<lparr>i_position := i_position i - 1\<rparr>) (course_items db);
                     items2 =
                       update_many
                         (\<lambda>i. i_section_id i = target_section_id \<and> new_position \<le> i_position i)
                         (\<lambda>i. i\<lparr>i_position := i_position i + 1\<rparr>) items1
                 in (Inr (Item_movido target_section_id new_position),
                     db\<lparr>course_items :=
                          set_item_location item_id target_section_id (s_course_id target_section)
                            new_position now items2\<rparr>)))"

definition toggle_item_visibility ::
  "DB \<Rightarrow> string \<Rightarrow> bool \<Rightarrow> CurrentUser \<Rightarrow> string \<Rightarrow> (error + Message) \<times> DB" where
  "toggle_item_visibility db item_id visible current_user now =
     (case find_one (\<lambda>i. i_id i = item_id) (course_items db) of
        None \<Rightarrow> (Inl (HTTPException 404 ''Item no encontrado''), db)
      | Some item \<Rightarrow>
          (Inr (Item_visibilidad visible),
           db\<lparr>course_items :=
                update_one (\<lambda>i. i_id i = item_id)
                  (\<lambda>i. i\<lparr>i_visible := visible, i_updated_at := now\<rparr>) (course_items db)\<rparr>))"

section \<open>routes/courses.py\<close>



definition apply_course_update :: "CourseUpdate \<Rightarrow> string \<Rightarrow> string \<Rightarrow> Course \<Rightarrow> Course" where
  "apply_course_update u now user_id c =
     c\<lparr>c_fullname := (case upd_fullname u of Some v \<Rightarrow> v | None \<Rightarrow> c_fullname c),
       c_shortname := (case upd_shortname u of Some v \<Rightarrow> v | None \<Rightarrow> c_shortname c),
       c_category_id := (case upd_category_id u of Some v \<Rightarrow> v | None \<Rightarrow> c_category_id c),
       c_visible := (case upd_visible u of Some v \<Rightarrow> v | None \<Rightarrow> c_visible c),
       c_status := (case upd_status u of Some v \<Rightarrow> v | None \<Rightarrow> c_status c),
       c_updated_at := now,
       c_last_modified_by := Some user_id\<rparr>"

definition shortname_taken :: "DB \<Rightarrow> Course \<Rightarrow> CourseUpdate \<Rightarrow> bool" where
  "shortname_taken db course u =
     (case upd_shortname u of
        None \<Rightarrow> False
      | Some n \<Rightarrow> if n = c_shortname course then False
                  else find_one (\<lambda>c. c_shortname c = n) (courses db) \<noteq> None)"

definition update_course ::
  "DB \<Rightarrow> string \<Rightarrow> CourseUpdate \<Rightarrow> CurrentUser \<Rightarrow> string \<Rightarrow> (error + Course option) \<times> DB" where
  "update_course db course_id course_update current_user now =
     (case find_one (\<lambda>c. c_id c = course_id) (courses db) of
        None \<Rightarrow> (Inl (HTTPException 404 ''Curso no encontrado''), db)
      | Some course \<Rightarrow>
          if c_status course = ARCHIVED then (Inl archived_error, db)
          else if cu_role current_user = TEACHER \<and>
                  c_created_by course \<noteq> Some (cu_user_id current_user) \<and>
                  find_one (\<lambda>e. e_course_id e = course_id \<and>
                                 e_user_id e = cu_user_id current_user \<and>
                                 e_role e = ENROLLED_TEACHER) (enrollments db) = None
          then (Inl (HTTPException 403 ''No tienes permisos para editar este curso''), db)
          else if shortname_taken db course course_update
          then (Inl (HTTPException 400 ''Ya existe un curso con ese nombre corto''), db)
          else
            let db1 = db\<lparr>courses :=
                          update_one (\<lambda>c. c_id c = course_id)
                            (apply_course_update course_update now (cu_user_id current_user))
                            (courses db)\<rparr>;
                db2 = log_audit db1 ''update'' ''course'' course_id (cu_user_id current_user)
            in (Inr (find_one (\<lambda>c. c_id c = course_id) (courses db2)), db2))"

fun bulk_delete_courses :: "DB \<Rightarrow> string list \<Rightarrow> string \<Rightarrow> DB" where
  "bulk_delete_courses db [] user_id = db"
| "bulk_delete_courses db (cid # cids) user_id =
     (case find_one (\<lambda>c. c_id c = cid) (courses db) of
        None \<Rightarrow> bulk_delete_courses db cids user_id
      | Some course \<Rightarrow>
          bulk_delete_courses
            (log_audit
               (db\<lparr>course_sections := delete_many (\<lambda>s. s_course_id s = cid) (course_sections db),
                   course_items := delete_many (\<lambda>i. i_course_id i = cid) (course_items db),
                   enrollments := delete_many (\<lambda>e. e_course_id e = cid) (enrollments db),
                   courses := delete_one (\<lambda>c. c_id c = cid) (courses db),
                   course_categories :=
                     update_one (\<lambda>k. cat_id k = c_category_id course)
                       (\<lambda>k. k\<lparr>cat_course_count := cat_course_count k - 1\<rparr>)
                       (course_categories db)\<rparr>)
               ''bulk_delete'' ''course'' cid user_id)
            cids user_id)"

fun bulk_log_audit :: "DB \<Rightarrow> string \<Rightarrow> string list \<Rightarrow> string \<Rightarrow> DB" where
  "bulk_log_audit db action [] user_id = db"
| "bulk_log_audit db action (cid # cids) user_id =
     bulk_log_audit (log_audit db (''bulk_'' @ action) ''course'' cid user_id) action cids user_id"

definition bulk_update_courses :: "DB \<Rightarrow> string list \<Rightarrow> (Course \<Rightarrow> Course) \<Rightarrow> string
     \<Rightarrow> string \<Rightarrow> string \<Rightarrow> (error + Message) \<times> DB" where
  "bulk_update_courses db course_ids f action user_id now =
     (Inr (Accion_aplicada action (length course_ids)),
      bulk_log_audit
        (db\<lparr>courses := update_many (\<lambda>c. c_id c \<in> set course_ids)
                          (\<lambda>c. f (c\<lparr>c_updated_at := now\<rparr>)) (courses db)\<rparr>)
        action course_ids user_id)"

definition bulk_course_action ::
  "DB \<Rightarrow> string list \<Rightarrow> string \<Rightarrow> CurrentUser \<Rightarrow> string \<Rightarrow> (error + Message) \<times> DB" where
  "bulk_course_action db course_ids action current_user now =
     (if action = ''delete'' \<and> cu_role current_user \<noteq> ADMIN
      then (Inl (HTTPException 403 ''Solo los administradores pueden eliminar cursos''), db)
      else if action = ''hide''
      then bulk_update_courses db course_ids (\<lambda>c. c\<lparr>c_visible := False\<rparr>) action
             (cu_user_id current_user) now
      else if action = ''show''
      then bulk_update_courses db course_ids (\<lambda>c. c\<lparr>c_visible := True\<rparr>) action
             (cu_user_id current_user) now
      else if action = ''suspend''
      then bulk_update_courses db course_ids (\<lambda>c. c\<lparr>c_status := SUSPENDED\<rparr>) action
             (cu_user_id current_user) now
      else if action = ''archive''
      then bulk_update_courses db course_ids (\<lambda>c. c\<lparr>c_status := ARCHIVED\<rparr>) action
             (cu_user_id current_user) now
      else if action = ''delete''
      then (Inr (Cursos_eliminados (length course_ids)),
            bulk_delete_courses db course_ids (cu_user_id current_user))
      else (Inl (HTTPException 400 ''Accion no valida''), db))"

section \<open>routes/enrollments.py\<close>

text \<open>
  The loop of \<open>bulk_enroll\<close> over \<open>user_ids\<close>, with the two counters and the store as its
  state. Each new enrollment takes its id from the list \<open>new_ids\<close> of drawn uuids; the
  handler draws one per enrollment, so the list never runs out in a call that provides
  one id per user id (\<open>fresh_id\<close> gives the empty id otherwise).
\<close>

definition fresh_id :: "string list \<Rightarrow> string" where
  "fresh_id ids = (case ids of [] \<Rightarrow> [] | x # xs \<Rightarrow> x)"

fun bulk_enroll_loop ::
  "DB \<Rightarrow> string \<Rightarrow> string list \<Rightarrow> EnrollmentRole \<Rightarrow> string \<Rightarrow> string list \<Rightarrow> nat \<Rightarrow> nat
     \<Rightarrow> nat \<times> nat \<times> DB" where
  "bulk_enroll_loop db course_id [] role by_user new_ids enrolled skipped = (enrolled, skipped, db)"
| "bulk_enroll_loop db course_id (user_id # rest) role by_user new_ids enrolled skipped =
     (case find_one (\<lambda>u. u_id u = user_id) (users db) of
        None \<Rightarrow> bulk_enroll_loop db course_id rest role by_user new_ids enrolled (skipped + 1)
      | Some user \<Rightarrow>
          (case find_one (\<lambda>e. e_course_id e = course_id \<and> e_user_id e = user_id)
                  (enrollments db) of
             Some existing \<Rightarrow>
               bulk_enroll_loop db course_id rest role by_user new_ids enrolled (skipped + 1)
           | None \<Rightarrow>
               let enrollment = \<lparr>e_id = fresh_id new_ids, e_course_id = course_id,
                                  e_user_id = user_id, e_role = role, e_status = ACTIVE,
                                  e_enrolled_by = Some by_user\<rparr>;
                   db1 = db\<lparr>enrollments := insert_one enrollment (enrollments db)\<rparr>;
                   db2 = log_audit db1 ''bulk_enroll'' ''enrollment'' (e_id enrollment) by_user
               in bulk_enroll_loop db2 course_id rest role by_user (tl new_ids)
                    (enrolled + 1) skipped))"

record BulkEnrollResponse =
  enrolled :: nat
  skipped :: nat

definition bulk_enroll ::
  "DB \<Rightarrow> string \<Rightarrow> string list \<Rightarrow> EnrollmentRole \<Rightarrow> CurrentUser \<Rightarrow> string list
     \<Rightarrow> (error + BulkEnrollResponse) \<times> DB" where
  "bulk_enroll db course_id user_ids role current_user new_ids =
     (case find_one (\<lambda>c. c_id c = course_id) (courses db) of
        None \<Rightarrow> (Inl (HTTPException 404 ''Curso no encontrado''), db)
      | Some course \<Rightarrow>
          (case bulk_enroll_loop db course_id user_ids role (cu_user_id current_user) new_ids 0 0 of
             (n_enrolled, n_skipped, db') \<Rightarrow>
               (Inr \<lparr>enrolled = n_enrolled, skipped = n_skipped\<rparr>, db')))"

section \<open>routes/evaluation.py: grading a quiz attempt\<close>






















section \<open>Vocabulary of the properties\<close>











text \<open>The error of the ownership gate of \<open>update_course\<close>, and what the gate looks for.\<close>

definition forbidden_edit :: error where
  "forbidden_edit = HTTPException 403 ''No tienes permisos para editar este curso''"

definition holds_teacher_enrollment :: "DB \<Rightarrow> string \<Rightarrow> string \<Rightarrow> bool" where
  "holds_teacher_enrollment db course_id user_id =
     (filter (\<lambda>e. e_course_id e = course_id \<and> e_user_id e = user_id \<and> e_role e = ENROLLED_TEACHER)
        (enrollments db) \<noteq> [])"

text \<open>
  Bulk enrolment: the ids that can be enrolled, the ids of a list in the order of their
  first occurrence, and the fields of an enrollment other than its generated id.
\<close>

definition user_exists :: "DB \<Rightarrow> string \<Rightarrow> bool" where
  "user_exists db user_id = (filter (\<lambda>u. u_id u = user_id) (users db) \<noteq> [])"

definition already_enrolled :: "DB \<Rightarrow> string \<Rightarrow> string \<Rightarrow> bool" where
  "already_enrolled db course_id user_id =
     (filter (\<lambda>e. e_course_id e = course_id \<and> e_user_id e = user_id) (enrollments db) \<noteq> [])"

definition can_enroll :: "DB \<Rightarrow> string \<Rightarrow> string \<Rightarrow> bool" where
  "can_enroll db course_id user_id =
     (user_exists db user_id \<and> \<not> already_enrolled db course_id user_id)"

function first_occurrences :: "'a list \<Rightarrow> 'a list" where
  "first_occurrences [] = []"
| "first_occurrences (x # xs) = x # first_occurrences (removeAll x xs)"
  by pat_completeness auto
termination
  by (relation "measure length") (auto simp: less_Suc_eq_le length_removeAll_less_eq)

definition enrollment_facts :: "Enrollment \<Rightarrow> string \<times> string \<times> EnrollmentRole \<times> EnrollmentStatus \<times> string option" where
  "enrollment_facts e = (e_course_id e, e_user_id e, e_role e, e_status e, e_enrolled_by e)"



section \<open>Example stores\<close>

definition admin_user :: CurrentUser where
  "admin_user = \<lparr>cu_user_id = ''u-admin'', cu_role = ADMIN\<rparr>"

definition teacher_user :: CurrentUser where
  "teacher_user = \<lparr>cu_user_id = ''u-teacher'', cu_role = TEACHER\<rparr>"

definition other_teacher :: CurrentUser where
  "other_teacher = \<lparr>cu_user_id = ''u-other'', cu_role = TEACHER\<rparr>"


definition mk_course :: "string \<Rightarrow> string \<Rightarrow> CourseStatus \<Rightarrow> string option \<Rightarrow> Course" where
  "mk_course cid short st creator =
     \<lparr>c_id = cid, c_fullname = short, c_shortname = short, c_category_id = ''cat'',
      c_status = st, c_visible = True, c_created_by = creator, c_updated_at = ''t0'',
      c_last_modified_by = None\<rparr>"

definition mk_section :: "string \<Rightarrow> string \<Rightarrow> int \<Rightarrow> CourseSection" where
  "mk_section sid cid p =
     \<lparr>s_id = sid, s_course_id = cid, s_title = sid, s_position = p, s_visible = True,
      s_created_at = ''t0'', s_updated_at = ''t0''\<rparr>"

definition mk_item :: "string \<Rightarrow> string \<Rightarrow> string \<Rightarrow> int \<Rightarrow> CourseItem" where
  "mk_item iid sid cid p =
     \<lparr>i_id = iid, i_section_id = sid, i_course_id = cid, i_title = iid, i_item_type = PAGE,
      i_position = p, i_visible = True, i_created_at = ''t0'', i_updated_at = ''t0''\<rparr>"

definition db_example :: DB where
  "db_example =
     \<lparr>courses = [mk_course ''c1'' ''C1'' PUBLISHED (Some ''u-teacher'')],
      course_sections = [mk_section ''s0'' ''c1'' 0, mk_section ''s1'' ''c1'' 1,
                         mk_section ''s2'' ''c1'' 2, mk_section ''s3'' ''c1'' 3,
                         mk_section ''s4'' ''c1'' 4],
      course_items = [mk_item ''a0'' ''s0'' ''c1'' 0, mk_item ''a1'' ''s0'' ''c1'' 1,
                      mk_item ''a2'' ''s0'' ''c1'' 2, mk_item ''b0'' ''s1'' ''c1'' 0,
                      mk_item ''b1'' ''s1'' ''c1'' 1],
      enrollments = [], users = [], course_categories = [], audit_logs = []\<rparr>"

definition db_archived :: DB where
  "db_archived =
     \<lparr>courses = [mk_course ''c9'' ''C9'' ARCHIVED (Some ''u-teacher'')],
      course_sections = [mk_section ''z0'' ''c9'' 0, mk_section ''z1'' ''c9'' 1],
      course_items = [mk_item ''x0'' ''z0'' ''c9'' 0, mk_item ''x1'' ''z0'' ''c9'' 1,
                      mk_item ''y0'' ''z1'' ''c9'' 0],
      enrollments = [], users = [], course_categories = [], audit_logs = []\<rparr>"

definition no_item_update :: CourseItemUpdate where
  "no_item_update = \<lparr>iu_title = Some ''T'', iu_position = None, iu_visible = None\<rparr>"

definition status_update :: CourseUpdate where
  "status_update = \<lparr>upd_fullname = None, upd_shortname = None, upd_category_id = None,
                     upd_visible = None, upd_status = Some PUBLISHED\<rparr>"

definition visible_update :: CourseUpdate where
  "visible_update = \<lparr>upd_fullname = None, upd_shortname = None, upd_category_id = None,
                      upd_visible = Some False, upd_status = None\<rparr>"

definition db_gate :: DB where
  "db_gate =
     \<lparr>courses = [mk_course ''c1'' ''C1'' PUBLISHED (Some ''u-teacher''),
                 mk_course ''c2'' ''C2'' DRAFT (Some ''u-admin'')],
      course_sections = [], course_items = [],
      enrollments = [\<lparr>e_id = ''e1'', e_course_id = ''c2'', e_user_id = ''u-teacher'',
                       e_role = ENROLLED_TEACHER, e_status = ENROLLMENT_SUSPENDED,
                       e_enrolled_by = Some ''u-admin''\<rparr>],
      users = [], course_categories = [], audit_logs = []\<rparr>"

definition db_enroll :: DB where
  "db_enroll =
     \<lparr>courses = [mk_course ''c1'' ''C1'' PUBLISHED (Some ''u-teacher'')],
      course_sections = [], course_items = [],
      enrollments = [\<lparr>e_id = ''e1'', e_course_id = ''c1'', e_user_id = ''u2'',
                       e_role = ENROLLED_STUDENT, e_status = ACTIVE,
                       e_enrolled_by = Some ''u-admin''\<rparr>],
      users = [\<lparr>u_id = ''u1'', u_email = ''u1@example.org'', u_role = STUDENT\<rparr>,
               \<lparr>u_id = ''u2'', u_email = ''u2@example.org'', u_role = STUDENT\<rparr>],
      course_categories = [], audit_logs = []\<rparr>"










lemmas example_defs = db_example_def mk_course_def mk_section_def mk_item_def admin_user_def

lemmas archived_defs = db_archived_def mk_course_def mk_section_def mk_item_def admin_user_def
  teacher_user_def other_teacher_def no_item_update_def status_update_def

lemmas gate_defs = db_gate_def mk_course_def admin_user_def teacher_user_def other_teacher_def
  visible_update_def status_update_def

section \<open>Facts about the store operations\<close>

lemma update_one_distinct:
  "distinct (map k xs) \<Longrightarrow>
   update_one (\<lambda>x. k x = a) f xs = map (\<lambda>x. if k x = a then f x else x) xs"
proof (induction xs)
  case Nil
  then show ?case by simp
next
  case (Cons x xs)
  show ?case
  proof (cases "k x = a")
    case True
    from Cons.prems True have "a \<notin> k ` set xs" by simp
    then have "\<forall>y\<in>set xs. k y \<noteq> a" by blast
    then have "map (\<lambda>x. if k x = a then f x else x) xs = xs"
      by (induction xs) auto
    with True show ?thesis by simp
  next
    case False
    with Cons show ?thesis by simp
  qed
qed

lemma update_one_after_map:
  assumes "distinct (map k xs)" and "\<And>x. k (g x) = k x"
  shows "update_one (\<lambda>x. k x = a) f (map g xs) = map (\<lambda>x. if k x = a then f (g x) else g x) xs"
proof -
  have eq: "map k (map g xs) = map k xs" using assms(2) by simp
  have "distinct (map k (map g xs))" unfolding eq by (rule assms(1))
  then have "update_one (\<lambda>x. k x = a) f (map g xs)
             = map (\<lambda>x. if k x = a then f x else x) (map g xs)"
    by (rule update_one_distinct)
  then show ?thesis using assms(2) by (simp add: comp_def)
qed


lemma find_one_Some_iff:
  "find_one P xs = Some x \<Longrightarrow> P x \<and> x \<in> set xs"
  by (auto simp: find_one_def find_Some_iff)

lemma find_one_None_iff: "find_one P xs = None \<longleftrightarrow> filter P xs = []"
  by (induction xs) (auto simp: find_one_def)

lemma find_one_distinct_key:
  assumes "find_one P xs = Some x" "distinct (map k xs)" "y \<in> set xs" "k y = k x"
  shows "y = x"
  using assms find_one_Some_iff[OF assms(1)]
  by (metis distinct_map inj_on_def)

section \<open>Moving within a scope\<close>





section \<open>Moving an item to another section\<close>

text \<open>
  C4. Moving an item to a different section: every item of the old section placed after
  the old position steps back by one, every item of the target section placed at or after
  the new position steps forward by one, both shifts are applied, and the moved item gets
  the target section, that section's course and the new position. All other items are
  unchanged.
\<close>

theorem move_cross_scope:
  assumes item: "find_one (\<lambda>i. i_id i = item_id) (course_items db) = Some item"
    and tgt: "find_one (\<lambda>s. s_id s = target_section_id) (course_sections db) = Some target_section"
    and diff: "target_section_id \<noteq> i_section_id item"
    and dist: "distinct (map i_id (course_items db))"
  shows "move_item db item_id target_section_id new_position current_user now =
     (Inr (Item_movido target_section_id new_position),
      db\<lparr>course_items :=
           map (\<lambda>i. if i_id i = item_id
                    then i\<lparr>i_section_id := target_section_id,
                           i_course_id := s_course_id target_section,
                           i_position := new_position, i_updated_at := now\<rparr>
                    else if i_section_id i = i_section_id item \<and> i_position item < i_position i
                    then i\<lparr>i_position := i_position i - 1\<rparr>
                    else if i_section_id i = target_section_id \<and> new_position \<le> i_position i
                    then i\<lparr>i_position := i_position i + 1\<rparr>
                    else i) (course_items db)\<rparr>)"
proof -
  define g :: "CourseItem \<Rightarrow> CourseItem" where "g = (\<lambda>i. if i_section_id i = i_section_id item \<and> i_position item < i_position i
                    then i\<lparr>i_position := i_position i - 1\<rparr>
                    else if i_section_id i = target_section_id \<and> new_position \<le> i_position i
                    then i\<lparr>i_position := i_position i + 1\<rparr>
                    else i)"
  define setp :: "CourseItem \<Rightarrow> CourseItem" where "setp = (\<lambda>i. i\<lparr>i_section_id := target_section_id,
          i_course_id := s_course_id target_section,
          i_position := new_position, i_updated_at := now\<rparr>)"
  have shift: "update_many (\<lambda>i. i_section_id i = target_section_id \<and> new_position \<le> i_position i)
                 (\<lambda>i. i\<lparr>i_position := i_position i + 1\<rparr>)
                 (update_many (\<lambda>i. i_section_id i = i_section_id item \<and> i_position item < i_position i)
                    (\<lambda>i. i\<lparr>i_position := i_position i - 1\<rparr>) (course_items db))
      = map g (course_items db)"
    using diff by (auto simp: update_many_def g_def)
  have gid: "\<And>i. i_id (g i) = i_id i" by (simp add: g_def)
  have mine: "\<And>i. i \<in> set (course_items db) \<Longrightarrow> i_id i = item_id \<Longrightarrow> i = item"
    using find_one_distinct_key[OF item dist] find_one_Some_iff[OF item] by auto
  have gitem: "g item = item" using diff by (simp add: g_def)
  have "update_one (\<lambda>i. i_id i = item_id) setp (map g (course_items db))
        = map (\<lambda>i. if i_id i = item_id then setp (g i) else g i) (course_items db)"
    using dist gid by (rule update_one_after_map)
  also have "\<dots> = map (\<lambda>i. if i_id i = item_id then setp i else g i) (course_items db)"
    using mine gitem by (intro map_cong) auto
  finally have "update_one (\<lambda>i. i_id i = item_id) setp (map g (course_items db))
        = map (\<lambda>i. if i_id i = item_id then setp i else g i) (course_items db)" .
  then show ?thesis
    using item tgt diff shift
    by (simp add: move_item_def Let_def set_item_location_def g_def setp_def)
qed

theorem move_cross_scope_witness:
  "find_one (\<lambda>i. i_id i = ''a1'') (course_items db_example) = Some (mk_item ''a1'' ''s0'' ''c1'' 1) \<and>
   find_one (\<lambda>s. s_id s = ''s1'') (course_sections db_example) = Some (mk_section ''s1'' ''c1'' 1) \<and>
   ''s1'' \<noteq> i_section_id (mk_item ''a1'' ''s0'' ''c1'' 1) \<and>
   distinct (map i_id (course_items db_example)) \<and>
   map (\<lambda>i. (i_id i, i_section_id i, i_course_id i, i_position i))
     (course_items (snd (move_item db_example ''a1'' ''s1'' 0 admin_user ''t1'')))
     = [(''a0'', ''s0'', ''c1'', 0), (''a1'', ''s1'', ''c1'', 0), (''a2'', ''s0'', ''c1'', 1),
        (''b0'', ''s1'', ''c1'', 1), (''b1'', ''s1'', ''c1'', 2)]"
proof -
  have h1: "find_one (\<lambda>i. i_id i = ''a1'') (course_items db_example)
              = Some (mk_item ''a1'' ''s0'' ''c1'' 1)"
    by (simp add: find_one_def example_defs)
  have h2: "find_one (\<lambda>s. s_id s = ''s1'') (course_sections db_example)
              = Some (mk_section ''s1'' ''c1'' 1)"
    by (simp add: find_one_def example_defs)
  have h3: "''s1'' \<noteq> i_section_id (mk_item ''a1'' ''s0'' ''c1'' 1)"
    by (simp add: example_defs)
  have h4: "distinct (map i_id (course_items db_example))"
    by (simp add: example_defs)
  have "map (\<lambda>i. (i_id i, i_section_id i, i_course_id i, i_position i))
     (course_items (snd (move_item db_example ''a1'' ''s1'' 0 admin_user ''t1'')))
     = [(''a0'', ''s0'', ''c1'', 0), (''a1'', ''s1'', ''c1'', 0), (''a2'', ''s0'', ''c1'', 1),
        (''b0'', ''s1'', ''c1'', 1), (''b1'', ''s1'', ''c1'', 2)]"
    using move_cross_scope [OF h1 h2 h3 h4, of 0 admin_user "''t1''"]
    by (simp add: example_defs)
  with h1 h2 h3 h4 show ?thesis by blast
qed

section \<open>The archived lock on items\<close>

lemma item_move_duplicate_visibility_never_archived_error:
  "fst (move_item db item_id target_section_id new_position current_user now) \<noteq> Inl archived_error \<and>
   fst (duplicate_item db item_id target current_user new_id now) \<noteq> Inl archived_error \<and>
   fst (toggle_item_visibility db item_id visible current_user now) \<noteq> Inl archived_error"
  by (simp add: move_item_def duplicate_item_def toggle_item_visibility_def archived_error_def
      Let_def split: option.splits)

text \<open>
  C2. Every update, create, delete, move, duplicate or visibility change of a section or
  item of an archived course is to be rejected with the archived error, leaving the store
  as it was. \<open>update_item\<close> does so; \<open>move_item\<close>, \<open>duplicate_item\<close> and
  \<open>toggle_item_visibility\<close> never look at the course: in a store whose only course is
  archived, an administrator moves item \<open>x0\<close> to the other section, duplicates it and
  hides it.
\<close>

theorem archived_item_operations_not_rejected:
  "find_one (\<lambda>c. c_id c = i_course_id (mk_item ''x0'' ''z0'' ''c9'' 0)) (courses db_archived)
     = Some (mk_course ''c9'' ''C9'' ARCHIVED (Some ''u-teacher'')) \<and>
   update_item db_archived ''x0'' no_item_update admin_user ''t1'' = (Inl archived_error, db_archived) \<and>
   fst (move_item db_archived ''x0'' ''z1'' 0 admin_user ''t1'') = Inr (Item_movido ''z1'' 0) \<and>
   map (\<lambda>i. (i_id i, i_section_id i, i_position i))
     (course_items (snd (move_item db_archived ''x0'' ''z1'' 0 admin_user ''t1'')))
     = [(''x0'', ''z1'', 0), (''x1'', ''z0'', 0), (''y0'', ''z1'', 1)] \<and>
   map (\<lambda>i. (i_id i, i_section_id i, i_position i))
     (course_items (snd (duplicate_item db_archived ''x0'' None admin_user ''x9'' ''t1'')))
     = [(''x0'', ''z0'', 0), (''x1'', ''z0'', 1), (''y0'', ''z1'', 0), (''x9'', ''z0'', 2)] \<and>
   map (\<lambda>i. (i_id i, i_visible i))
     (course_items (snd (toggle_item_visibility db_archived ''x0'' False admin_user ''t1'')))
     = [(''x0'', False), (''x1'', True), (''y0'', True)]"
  by (simp add: update_item_def move_item_def duplicate_item_def toggle_item_visibility_def
      set_item_location_def find_one_def find_one_sort_desc_def update_many_def insert_one_def
      log_audit_def course_is_archived_def archived_defs Let_def)

section \<open>Creating sections and items\<close>


lemma create_item_never_inserts:
  "snd (create_item db section_id item_data current_user new_id now) = db \<and>
   fst (create_item db section_id item_data current_user new_id now) \<noteq> Inr item"
  by (simp add: create_item_def duplicate_keyword_def CourseItemCreate_model_dump_keys_def
      Let_def split: sum.splits prod.splits)

text \<open>
  C3. A create with no position is to store the largest position of the scope plus one
  (0 in an empty scope), a create with a position is to store that position. In a course
  that can be edited, with the position left out (the body's default 0) or given as 7, and
  for an item alike, the handler raises \<open>TypeError\<close> and stores nothing.
\<close>

theorem create_raises_type_error:
  "create_section db_example ''c1'' \<lparr>sc_title = ''Tema'', sc_position = 0, sc_course_id = ''c1''\<rparr>
     admin_user ''s9'' ''t1''
     = (Inl (TypeError ''got multiple values for keyword argument''), db_example) \<and>
   create_section db_example ''c1'' \<lparr>sc_title = ''Tema'', sc_position = 7, sc_course_id = ''c1''\<rparr>
     admin_user ''s9'' ''t1''
     = (Inl (TypeError ''got multiple values for keyword argument''), db_example) \<and>
   create_item db_example ''s0''
     \<lparr>ic_title = ''Pagina'', ic_item_type = PAGE, ic_position = 0, ic_section_id = None\<rparr>
     admin_user ''a9'' ''t1''
     = (Inl (TypeError ''got multiple values for keyword argument''), db_example)"
  by (simp add: create_section_def create_item_def check_course_access_def
      check_section_access_def duplicate_keyword_def CourseSectionCreate_model_dump_keys_def
      CourseItemCreate_model_dump_keys_def find_one_def example_defs Let_def)

section \<open>Density of section positions\<close>

























section \<open>Archived courses\<close>

lemma check_course_access_archived:
  "find_one (\<lambda>c. c_id c = course_id) (courses db) = Some course \<Longrightarrow> c_status course = ARCHIVED \<Longrightarrow>
   check_course_access db course_id current_user True = Inl archived_error"
  by (simp add: check_course_access_def)

text \<open>
  C8, as the code has it. For every archived course, \<open>update_course\<close> rejects every
  update, one that sets the status included, with the archived error and leaves the store
  as it was; so do create, update, delete and move of its sections and create, update and
  delete of its items.
\<close>

theorem archived_course_is_read_only:
  assumes found: "find_one (\<lambda>c. c_id c = course_id) (courses db) = Some course"
    and arch: "c_status course = ARCHIVED"
  shows "update_course db course_id course_update current_user now = (Inl archived_error, db) \<and>
     create_section db course_id section_data current_user new_id now = (Inl archived_error, db) \<and>
     update_section db course_id section_id section_update current_user now = (Inl archived_error, db) \<and>
     delete_section db course_id section_id force current_user now = (Inl archived_error, db) \<and>
     move_section db course_id section_id new_position current_user now = (Inl archived_error, db) \<and>
     (find_one (\<lambda>s. s_id s = in_section) (course_sections db) = Some sec \<and> s_course_id sec = course_id
        \<longrightarrow> create_item db in_section item_data current_user new_id now = (Inl archived_error, db)) \<and>
     (find_one (\<lambda>i. i_id i = item_id) (course_items db) = Some item \<and> i_course_id item = course_id
        \<longrightarrow> update_item db item_id item_update current_user now = (Inl archived_error, db) \<and>
            delete_item db item_id current_user now = (Inl archived_error, db))"
proof -
  note acc = check_course_access_archived [OF found arch]
  have 1: "update_course db course_id course_update current_user now = (Inl archived_error, db)"
    using found arch by (simp add: update_course_def)
  have 2: "create_section db course_id section_data current_user new_id now = (Inl archived_error, db)"
    using acc by (simp add: create_section_def)
  have 3: "update_section db course_id section_id section_update current_user now = (Inl archived_error, db)"
    using acc by (simp add: update_section_def)
  have 4: "delete_section db course_id section_id force current_user now = (Inl archived_error, db)"
    using acc by (simp add: delete_section_def)
  have 5: "move_section db course_id section_id new_position current_user now = (Inl archived_error, db)"
    using acc by (simp add: move_section_def)
  have 6: "create_item db in_section item_data current_user new_id now = (Inl archived_error, db)"
    if "find_one (\<lambda>s. s_id s = in_section) (course_sections db) = Some sec" "s_course_id sec = course_id"
    using that found arch by (simp add: create_item_def check_section_access_def)
  have 7: "update_item db item_id item_update current_user now = (Inl archived_error, db) \<and>
           delete_item db item_id current_user now = (Inl archived_error, db)"
    if "find_one (\<lambda>i. i_id i = item_id) (course_items db) = Some item" "i_course_id item = course_id"
    using that found arch by (simp add: update_item_def delete_item_def course_is_archived_def)
  show ?thesis using 1 2 3 4 5 6 7 by blast
qed

theorem archived_course_is_read_only_witness:
  "find_one (\<lambda>c. c_id c = ''c9'') (courses db_archived)
     = Some (mk_course ''c9'' ''C9'' ARCHIVED (Some ''u-teacher'')) \<and>
   c_status (mk_course ''c9'' ''C9'' ARCHIVED (Some ''u-teacher'')) = ARCHIVED \<and>
   find_one (\<lambda>s. s_id s = ''z0'') (course_sections db_archived) = Some (mk_section ''z0'' ''c9'' 0) \<and>
   find_one (\<lambda>i. i_id i = ''x0'') (course_items db_archived) = Some (mk_item ''x0'' ''z0'' ''c9'' 0) \<and>
   update_course db_archived ''c9'' status_update teacher_user ''t1'' = (Inl archived_error, db_archived) \<and>
   move_section db_archived ''c9'' ''z0'' 1 teacher_user ''t1'' = (Inl archived_error, db_archived) \<and>
   create_item db_archived ''z0''
     \<lparr>ic_title = ''P'', ic_item_type = PAGE, ic_position = 0, ic_section_id = None\<rparr>
     teacher_user ''x9'' ''t1'' = (Inl archived_error, db_archived) \<and>
   delete_item db_archived ''x0'' teacher_user ''t1'' = (Inl archived_error, db_archived)"
proof -
  have h1: "find_one (\<lambda>c. c_id c = ''c9'') (courses db_archived)
     = Some (mk_course ''c9'' ''C9'' ARCHIVED (Some ''u-teacher''))"
    by (simp add: find_one_def archived_defs)
  have h2: "c_status (mk_course ''c9'' ''C9'' ARCHIVED (Some ''u-teacher'')) = ARCHIVED"
    by (simp add: mk_course_def)
  have h3: "find_one (\<lambda>s. s_id s = ''z0'') (course_sections db_archived) = Some (mk_section ''z0'' ''c9'' 0)"
    by (simp add: find_one_def archived_defs)
  have h4: "find_one (\<lambda>i. i_id i = ''x0'') (course_items db_archived) = Some (mk_item ''x0'' ''z0'' ''c9'' 0)"
    by (simp add: find_one_def archived_defs)
  have h5: "s_course_id (mk_section ''z0'' ''c9'' 0) = ''c9''" "i_course_id (mk_item ''x0'' ''z0'' ''c9'' 0) = ''c9''"
    by (simp_all add: mk_section_def mk_item_def)
  note inst = archived_course_is_read_only [OF h1 h2, where current_user = teacher_user
      and now = "''t1''" and course_update = status_update and section_id = "''z0''"
      and new_position = 1 and in_section = "''z0''" and sec = "mk_section ''z0'' ''c9'' 0"
      and item_data = "\<lparr>ic_title = ''P'', ic_item_type = PAGE, ic_position = 0, ic_section_id = None\<rparr>"
      and new_id = "''x9''" and item_id = "''x0''" and item = "mk_item ''x0'' ''z0'' ''c9'' 0"]
  show ?thesis using inst h1 h2 h3 h4 h5 by blast
qed

text \<open>
  C8 as stated permits an explicit change of status on an archived course. The handler
  rejects it: the course stays archived.
\<close>

theorem archived_status_update_rejected:
  "update_course db_archived ''c9'' status_update admin_user ''t1'' = (Inl archived_error, db_archived) \<and>
   upd_status status_update = Some PUBLISHED \<and>
   map c_status (courses (snd (update_course db_archived ''c9'' status_update admin_user ''t1'')))
     = [ARCHIVED]"
  by (simp add: update_course_def find_one_def archived_defs)

text \<open>
  \<open>bulk_course_action\<close> does not look at the status of the courses it changes: it hides
  an archived course, and it sets an archived course to suspended.
\<close>

lemma bulk_hide_changes_archived_course:
  "map (\<lambda>c. (c_id c, c_status c, c_visible c)) (courses db_archived) = [(''c9'', ARCHIVED, True)] \<and>
   map (\<lambda>c. (c_id c, c_status c, c_visible c))
     (courses (snd (bulk_course_action db_archived [''c9''] ''hide'' admin_user ''t1'')))
     = [(''c9'', ARCHIVED, False)] \<and>
   map (\<lambda>c. (c_id c, c_status c, c_visible c))
     (courses (snd (bulk_course_action db_archived [''c9''] ''suspend'' admin_user ''t1'')))
     = [(''c9'', SUSPENDED, True)]"
  by (simp add: bulk_course_action_def bulk_update_courses_def update_many_def archived_defs
      log_audit_def insert_one_def)

section \<open>The ownership gate of course edits\<close>

text \<open>
  C9, as the code has it. For a teacher and a course that exists and is not archived:
  when the teacher neither created the course nor holds an enrollment in it with role
  teacher, \<open>update_course\<close> answers 403 and leaves the store as it was; otherwise the gate
  lets the edit pass, and the update is applied unless it renames the course to a short
  name that is taken.
\<close>

theorem teacher_edit_gate:
  assumes role: "cu_role current_user = TEACHER"
    and found: "find_one (\<lambda>c. c_id c = course_id) (courses db) = Some course"
    and live: "c_status course \<noteq> ARCHIVED"
  shows "update_course db course_id course_update current_user now =
     (if c_created_by course = Some (cu_user_id current_user) \<or>
         holds_teacher_enrollment db course_id (cu_user_id current_user)
      then (if shortname_taken db course course_update
            then (Inl (HTTPException 400 ''Ya existe un curso con ese nombre corto''), db)
            else (Inr (find_one (\<lambda>c. c_id c = course_id)
                        (update_one (\<lambda>c. c_id c = course_id)
                           (apply_course_update course_update now (cu_user_id current_user))
                           (courses db))),
                  log_audit
                    (db\<lparr>courses := update_one (\<lambda>c. c_id c = course_id)
                           (apply_course_update course_update now (cu_user_id current_user))
                           (courses db)\<rparr>)
                    ''update'' ''course'' course_id (cu_user_id current_user)))
      else (Inl forbidden_edit, db))"
  using role found live
  by (simp add: update_course_def holds_teacher_enrollment_def find_one_None_iff forbidden_edit_def
      Let_def log_audit_def)

theorem teacher_edit_gate_witness:
  "cu_role other_teacher = TEACHER \<and> cu_role teacher_user = TEACHER \<and>
   find_one (\<lambda>c. c_id c = ''c1'') (courses db_gate)
     = Some (mk_course ''c1'' ''C1'' PUBLISHED (Some ''u-teacher'')) \<and>
   find_one (\<lambda>c. c_id c = ''c2'') (courses db_gate)
     = Some (mk_course ''c2'' ''C2'' DRAFT (Some ''u-admin'')) \<and>
   update_course db_gate ''c1'' visible_update other_teacher ''t1'' = (Inl forbidden_edit, db_gate) \<and>
   map (\<lambda>c. (c_id c, c_visible c))
     (courses (snd (update_course db_gate ''c1'' visible_update teacher_user ''t1'')))
     = [(''c1'', False), (''c2'', True)] \<and>
   map (\<lambda>c. (c_id c, c_visible c))
     (courses (snd (update_course db_gate ''c2'' visible_update teacher_user ''t1'')))
     = [(''c1'', True), (''c2'', False)]"
proof -
  have r: "cu_role other_teacher = TEACHER" "cu_role teacher_user = TEACHER"
    by (simp_all add: gate_defs)
  have f1: "find_one (\<lambda>c. c_id c = ''c1'') (courses db_gate)
     = Some (mk_course ''c1'' ''C1'' PUBLISHED (Some ''u-teacher''))"
    by (simp add: find_one_def gate_defs)
  have f2: "find_one (\<lambda>c. c_id c = ''c2'') (courses db_gate)
     = Some (mk_course ''c2'' ''C2'' DRAFT (Some ''u-admin''))"
    by (simp add: find_one_def gate_defs)
  have l1: "c_status (mk_course ''c1'' ''C1'' PUBLISHED (Some ''u-teacher'')) \<noteq> ARCHIVED"
    and l2: "c_status (mk_course ''c2'' ''C2'' DRAFT (Some ''u-admin'')) \<noteq> ARCHIVED"
    by (simp_all add: mk_course_def)
  have a: "update_course db_gate ''c1'' visible_update other_teacher ''t1'' = (Inl forbidden_edit, db_gate)"
    using teacher_edit_gate [OF r(1) f1 l1, of visible_update "''t1''"]
    by (simp add: holds_teacher_enrollment_def gate_defs)
  have b: "map (\<lambda>c. (c_id c, c_visible c))
     (courses (snd (update_course db_gate ''c1'' visible_update teacher_user ''t1'')))
     = [(''c1'', False), (''c2'', True)]"
    using teacher_edit_gate [OF r(2) f1 l1, of visible_update "''t1''"]
    by (simp add: holds_teacher_enrollment_def shortname_taken_def apply_course_update_def
        log_audit_def gate_defs)
  have c: "map (\<lambda>c. (c_id c, c_visible c))
     (courses (snd (update_course db_gate ''c2'' visible_update teacher_user ''t1'')))
     = [(''c1'', True), (''c2'', False)]"
    using teacher_edit_gate [OF r(2) f2 l2, of visible_update "''t1''"]
    by (simp add: holds_teacher_enrollment_def shortname_taken_def apply_course_update_def
        log_audit_def gate_defs)
  show ?thesis using r f1 f2 a b c by blast
qed

text \<open>
  C9 as stated promises the 403 for every course. For an archived course the archived
  check comes first: a teacher who neither created the course nor is enrolled in it gets
  the archived error (400), not 403.
\<close>

theorem teacher_edit_archived_not_forbidden:
  "cu_role other_teacher = TEACHER \<and>
   find_one (\<lambda>c. c_id c = ''c9'') (courses db_archived)
     = Some (mk_course ''c9'' ''C9'' ARCHIVED (Some ''u-teacher'')) \<and>
   c_created_by (mk_course ''c9'' ''C9'' ARCHIVED (Some ''u-teacher'')) \<noteq> Some (cu_user_id other_teacher) \<and>
   filter (\<lambda>e. e_course_id e = ''c9'' \<and> e_user_id e = cu_user_id other_teacher \<and>
                e_role e = ENROLLED_TEACHER) (enrollments db_archived) = [] \<and>
   update_course db_archived ''c9'' visible_update other_teacher ''t1''
     = (Inl (HTTPException 400 ''Los cursos archivados no se pueden editar''), db_archived) \<and>
   fst (update_course db_archived ''c9'' visible_update other_teacher ''t1'') \<noteq> Inl forbidden_edit"
  by (simp add: update_course_def find_one_def archived_defs archived_error_def forbidden_edit_def)

text \<open>
  C10. The gate looks for an enrollment with role teacher and ignores its status: a
  teacher whose teacher enrollment in the course is suspended or ended is never answered
  403; the edit is rejected only where the creator's would be (archived course, short name
  taken) and is applied otherwise.
\<close>

theorem teacher_gate_ignores_enrollment_status:
  assumes role: "cu_role current_user = TEACHER"
    and found: "find_one (\<lambda>c. c_id c = course_id) (courses db) = Some course"
    and enr: "e \<in> set (enrollments db)" "e_course_id e = course_id"
      "e_user_id e = cu_user_id current_user" "e_role e = ENROLLED_TEACHER"
    and st: "e_status e = ENROLLMENT_SUSPENDED \<or> e_status e = ENDED"
  shows "fst (update_course db course_id course_update current_user now) \<noteq> Inl forbidden_edit \<and>
     (if c_status course = ARCHIVED \<or> shortname_taken db course course_update
      then snd (update_course db course_id course_update current_user now) = db
      else update_course db course_id course_update current_user now =
            (Inr (find_one (\<lambda>c. c_id c = course_id)
                    (update_one (\<lambda>c. c_id c = course_id)
                       (apply_course_update course_update now (cu_user_id current_user))
                       (courses db))),
             log_audit
               (db\<lparr>courses := update_one (\<lambda>c. c_id c = course_id)
                      (apply_course_update course_update now (cu_user_id current_user))
                      (courses db)\<rparr>)
               ''update'' ''course'' course_id (cu_user_id current_user)))"
proof -
  have "filter (\<lambda>e. e_course_id e = course_id \<and> e_user_id e = cu_user_id current_user \<and>
                     e_role e = ENROLLED_TEACHER) (enrollments db) \<noteq> []"
    using enr by (auto simp: filter_empty_conv)
  then have "find_one (\<lambda>e. e_course_id e = course_id \<and> e_user_id e = cu_user_id current_user \<and>
                     e_role e = ENROLLED_TEACHER) (enrollments db) \<noteq> None"
    by (simp add: find_one_None_iff)
  then show ?thesis
    using found
    by (auto simp: update_course_def forbidden_edit_def archived_error_def Let_def log_audit_def)
qed

theorem teacher_gate_ignores_enrollment_status_witness:
  "cu_role teacher_user = TEACHER \<and>
   find_one (\<lambda>c. c_id c = ''c2'') (courses db_gate)
     = Some (mk_course ''c2'' ''C2'' DRAFT (Some ''u-admin'')) \<and>
   map (\<lambda>e. (e_course_id e, e_user_id e, e_role e, e_status e)) (enrollments db_gate)
     = [(''c2'', ''u-teacher'', ENROLLED_TEACHER, ENROLLMENT_SUSPENDED)] \<and>
   fst (update_course db_gate ''c2'' visible_update teacher_user ''t1'') \<noteq> Inl forbidden_edit \<and>
   map (\<lambda>c. (c_id c, c_visible c))
     (courses (snd (update_course db_gate ''c2'' visible_update teacher_user ''t1'')))
     = [(''c1'', True), (''c2'', False)]"
proof -
  define e where "e = \<lparr>e_id = ''e1'', e_course_id = ''c2'', e_user_id = ''u-teacher'',
      e_role = ENROLLED_TEACHER, e_status = ENROLLMENT_SUSPENDED, e_enrolled_by = Some ''u-admin''\<rparr>"
  have r: "cu_role teacher_user = TEACHER" by (simp add: teacher_user_def)
  have f: "find_one (\<lambda>c. c_id c = ''c2'') (courses db_gate)
     = Some (mk_course ''c2'' ''C2'' DRAFT (Some ''u-admin''))"
    by (simp add: find_one_def gate_defs)
  have en: "map (\<lambda>e. (e_course_id e, e_user_id e, e_role e, e_status e)) (enrollments db_gate)
     = [(''c2'', ''u-teacher'', ENROLLED_TEACHER, ENROLLMENT_SUSPENDED)]"
    by (simp add: db_gate_def)
  have e1: "e \<in> set (enrollments db_gate)" by (simp add: e_def db_gate_def)
  have e2: "e_course_id e = ''c2''" "e_user_id e = cu_user_id teacher_user"
    "e_role e = ENROLLED_TEACHER"
    by (simp_all add: e_def teacher_user_def)
  have e3: "e_status e = ENROLLMENT_SUSPENDED \<or> e_status e = ENDED" by (simp add: e_def)
  note inst = teacher_gate_ignores_enrollment_status [OF r f e1 e2 e3, of visible_update "''t1''"]
  have a: "fst (update_course db_gate ''c2'' visible_update teacher_user ''t1'') \<noteq> Inl forbidden_edit"
    using inst by simp
  have b: "map (\<lambda>c. (c_id c, c_visible c))
     (courses (snd (update_course db_gate ''c2'' visible_update teacher_user ''t1'')))
     = [(''c1'', True), (''c2'', False)]"
    using inst
    by (simp add: shortname_taken_def apply_course_update_def log_audit_def gate_defs)
  show ?thesis using r f en a b by blast
qed

section \<open>Bulk enrolment\<close>

lemma can_enroll_iff:
  "can_enroll db course_id x \<longleftrightarrow>
     find_one (\<lambda>u. u_id u = x) (users db) \<noteq> None \<and>
     find_one (\<lambda>e. e_course_id e = course_id \<and> e_user_id e = x) (enrollments db) = None"
  by (simp add: can_enroll_def user_exists_def already_enrolled_def find_one_None_iff)

lemma bulk_enroll_loop_spec:
  "bulk_enroll_loop db course_id user_ids role by_user new_ids n m = (n', m', db') \<Longrightarrow>
   n' = n + length (first_occurrences (filter (can_enroll db course_id) user_ids)) \<and>
   n' + m' = n + m + length user_ids \<and>
   map enrollment_facts (enrollments db') =
     map enrollment_facts (enrollments db) @
     map (\<lambda>u. (course_id, u, role, ACTIVE, Some by_user))
       (first_occurrences (filter (can_enroll db course_id) user_ids)) \<and>
   users db' = users db \<and> courses db' = courses db \<and>
   course_sections db' = course_sections db \<and> course_items db' = course_items db"
proof (induction user_ids arbitrary: db new_ids n m)
  case Nil
  then show ?case by simp
next
  case (Cons x rest)
  show ?case
  proof (cases "can_enroll db course_id x")
    case False
    then have step: "bulk_enroll_loop db course_id (x # rest) role by_user new_ids n m
        = bulk_enroll_loop db course_id rest role by_user new_ids n (m + 1)"
      by (auto simp: can_enroll_iff split: option.splits)
    from Cons.IH [of db new_ids n "m + 1"] Cons.prems step False
    show ?thesis by simp
  next
    case True
    define e where "e = \<lparr>e_id = fresh_id new_ids, e_course_id = course_id, e_user_id = x,
        e_role = role, e_status = ACTIVE, e_enrolled_by = Some by_user\<rparr>"
    define db2 where "db2 = log_audit (db\<lparr>enrollments := insert_one e (enrollments db)\<rparr>)
        ''bulk_enroll'' ''enrollment'' (e_id e) by_user"
    from True have step: "bulk_enroll_loop db course_id (x # rest) role by_user new_ids n m
        = bulk_enroll_loop db2 course_id rest role by_user (tl new_ids) (n + 1) m"
      by (auto simp: can_enroll_iff db2_def e_def Let_def split: option.splits)
    have en2: "enrollments db2 = enrollments db @ [e]" and us2: "users db2 = users db"
      and rest2: "courses db2 = courses db" "course_sections db2 = course_sections db"
        "course_items db2 = course_items db"
      by (simp_all add: db2_def log_audit_def insert_one_def)
    have can2: "can_enroll db2 course_id u \<longleftrightarrow> can_enroll db course_id u \<and> u \<noteq> x" for u
      by (auto simp: can_enroll_def user_exists_def already_enrolled_def en2 us2 e_def)
    have filt: "filter (can_enroll db2 course_id) rest
        = removeAll x (filter (can_enroll db course_id) rest)"
      by (induction rest) (auto simp: can2)
    from Cons.IH [of db2 "tl new_ids" "n + 1" m] Cons.prems step
    have "n' = n + 1 + length (first_occurrences (filter (can_enroll db2 course_id) rest)) \<and>
      n' + m' = n + 1 + m + length rest \<and>
      map enrollment_facts (enrollments db') =
        map enrollment_facts (enrollments db2) @
        map (\<lambda>u. (course_id, u, role, ACTIVE, Some by_user))
          (first_occurrences (filter (can_enroll db2 course_id) rest)) \<and>
      users db' = users db2 \<and> courses db' = courses db2 \<and>
      course_sections db' = course_sections db2 \<and> course_items db' = course_items db2"
      by simp
    moreover have "enrollment_facts e = (course_id, x, role, ACTIVE, Some by_user)"
      by (simp add: enrollment_facts_def e_def)
    ultimately show ?thesis
      using True by (simp add: filt en2 us2 rest2)
  qed
qed

text \<open>
  C7. A bulk enrolment into an existing course never fails as a whole. Going through the
  list, an id whose user does not exist or who is enrolled already (before the call or
  earlier in the list) is skipped, every other id is enrolled with the requested role;
  the response counts both, and the two counts add up to the length of the list.
\<close>

theorem bulk_enroll_partial_success:
  assumes found: "find_one (\<lambda>c. c_id c = course_id) (courses db) = Some course"
  shows "\<exists>r db'. bulk_enroll db course_id user_ids role current_user new_ids = (Inr r, db') \<and>
         enrolled r = length (first_occurrences (filter (can_enroll db course_id) user_ids)) \<and>
         enrolled r + skipped r = length user_ids \<and>
         map enrollment_facts (enrollments db') =
           map enrollment_facts (enrollments db) @
           map (\<lambda>u. (course_id, u, role, ACTIVE, Some (cu_user_id current_user)))
             (first_occurrences (filter (can_enroll db course_id) user_ids)) \<and>
         users db' = users db \<and> courses db' = courses db"
proof -
  obtain n' m' db' where loop:
    "bulk_enroll_loop db course_id user_ids role (cu_user_id current_user) new_ids 0 0 = (n', m', db')"
    by (metis prod_cases3)
  from bulk_enroll_loop_spec [OF loop]
  have spec: "n' = length (first_occurrences (filter (can_enroll db course_id) user_ids))"
    "n' + m' = length user_ids"
    "map enrollment_facts (enrollments db') =
       map enrollment_facts (enrollments db) @
       map (\<lambda>u. (course_id, u, role, ACTIVE, Some (cu_user_id current_user)))
         (first_occurrences (filter (can_enroll db course_id) user_ids))"
    "users db' = users db" "courses db' = courses db"
    by simp_all
  have "bulk_enroll db course_id user_ids role current_user new_ids =
          (Inr \<lparr>enrolled = n', skipped = m'\<rparr>, db')"
    using found loop by (simp add: bulk_enroll_def)
  with spec show ?thesis by auto
qed

theorem bulk_enroll_partial_success_witness:
  "find_one (\<lambda>c. c_id c = ''c1'') (courses db_enroll)
     = Some (mk_course ''c1'' ''C1'' PUBLISHED (Some ''u-teacher'')) \<and>
   (\<exists>r db'. bulk_enroll db_enroll ''c1'' [''u1'', ''u2'', ''u3''] ENROLLED_STUDENT admin_user
               [''n1'', ''n2'', ''n3''] = (Inr r, db') \<and>
             enrolled r = 1 \<and> skipped r = 2 \<and>
             map enrollment_facts (enrollments db') =
               [(''c1'', ''u2'', ENROLLED_STUDENT, ACTIVE, Some ''u-admin''),
                (''c1'', ''u1'', ENROLLED_STUDENT, ACTIVE, Some ''u-admin'')])"
proof -
  have h: "find_one (\<lambda>c. c_id c = ''c1'') (courses db_enroll)
     = Some (mk_course ''c1'' ''C1'' PUBLISHED (Some ''u-teacher''))"
    by (simp add: find_one_def db_enroll_def mk_course_def)
  have c: "filter (can_enroll db_enroll ''c1'') [''u1'', ''u2'', ''u3''] = [''u1'']"
    by (simp add: can_enroll_def user_exists_def already_enrolled_def db_enroll_def)
  have e: "map enrollment_facts (enrollments db_enroll)
             = [(''c1'', ''u2'', ENROLLED_STUDENT, ACTIVE, Some ''u-admin'')]"
    by (simp add: enrollment_facts_def db_enroll_def)
  from bulk_enroll_partial_success [OF h, of "[''u1'', ''u2'', ''u3'']" ENROLLED_STUDENT
      admin_user "[''n1'', ''n2'', ''n3'']", unfolded c e]
  have "\<exists>r db'. bulk_enroll db_enroll ''c1'' [''u1'', ''u2'', ''u3''] ENROLLED_STUDENT admin_user
               [''n1'', ''n2'', ''n3''] = (Inr r, db') \<and>
             enrolled r = 1 \<and> skipped r = 2 \<and>
             map enrollment_facts (enrollments db') =
               [(''c1'', ''u2'', ENROLLED_STUDENT, ACTIVE, Some ''u-admin''),
                (''c1'', ''u1'', ENROLLED_STUDENT, ACTIVE, Some ''u-admin'')]"
    by (auto simp: admin_user_def)
  with h show ?thesis by blast
qed

section \<open>Quiz grading\<close>







end
